theory Spec2Isabelle
  imports Complex_Main
begin

section \<open>The banking system: clients, accounts, transactions\<close>

text \<open>
  Amounts are Python numbers (the menu reads them with \<^verbatim>\<open>float(input(...))\<close>). The
  first model takes them as exact reals: it follows the control flow of every method, and
  it is the model of the properties that rest on comparisons and on the order of the
  checks. Where the rounding of an addition or a subtraction decides, the methods are
  modelled a second time over Python floats, with the suffix \<open>_f64\<close>. Account numbers
  and the withdrawal cap are Python ints. Console output of the account methods is kept
  as the message that the method prints next to the boolean it returns.
\<close>

subsection \<open>Transactions and the history\<close>

text \<open>The classes \<^verbatim>\<open>Saque\<close> and \<^verbatim>\<open>Deposito\<close>, each holding \<^verbatim>\<open>_valor\<close>.\<close>

datatype transacao = Saque real | Deposito real

fun transacao_valor :: "transacao \<Rightarrow> real" where
  "transacao_valor (Saque v) = v"
| "transacao_valor (Deposito v) = v"

text \<open>\<^verbatim>\<open>type(transacao).__name__\<close>.\<close>

fun nome_da_classe :: "transacao \<Rightarrow> string" where
  "nome_da_classe (Saque v) = ''Saque''"
| "nome_da_classe (Deposito v) = ''Deposito''"

text \<open>
  The dictionary that \<^verbatim>\<open>Historico.adicionar_transacao\<close> builds, with its three keys.
  The value of \<^verbatim>\<open>"data"\<close> is the formatted clock reading, an input of the model.
\<close>

record entrada =
  tipo :: string
  valor :: real
  data :: string

text \<open>
  What an element of the list \<^verbatim>\<open>_transacoes\<close> can be at run time: a dictionary or a
  transaction object. \<^verbatim>\<open>isinstance(t, Saque)\<close> holds of a \<^verbatim>\<open>Saque\<close> object only.
\<close>

datatype item = Dicionario entrada | Objeto transacao

fun isinstance_Saque :: "item \<Rightarrow> bool" where
  "isinstance_Saque (Objeto (Saque v)) = True"
| "isinstance_Saque (Objeto (Deposito v)) = False"
| "isinstance_Saque (Dicionario e) = False"

definition Historico_init :: "item list" where
  "Historico_init = []"

definition adicionar_transacao :: "item list \<Rightarrow> transacao \<Rightarrow> string \<Rightarrow> item list" where
  "adicionar_transacao transacoes t agora =
     transacoes @ [Dicionario \<lparr>tipo = nome_da_classe t, valor = transacao_valor t, data = agora\<rparr>]"

subsection \<open>Accounts\<close>

text \<open>
  \<^verbatim>\<open>Conta\<close> and its subclass \<^verbatim>\<open>ContaCorrente\<close>. The owner is a reference to a client
  object: its position in the list of clients, which only grows.
\<close>

record conta =
  saldo :: real
  numero :: int
  agencia :: string
  cliente :: nat
  historico :: "item list"

record conta_corrente = conta +
  limite :: real
  limite_saques :: int

text \<open>An account object with its run-time class, for the dynamic dispatch of \<^verbatim>\<open>sacar\<close>.\<close>

datatype objeto_conta = InstConta conta | InstContaCorrente conta_corrente

text \<open>The messages the account methods print.\<close>

datatype mensagem =
    ValorInvalido
  | SaldoInsuficiente
  | SaqueExcedeLimite
  | MaximoSaquesExcedido
  | SaqueExcedeDisponivel
  | SaqueRealizado
  | DepositoRealizado

definition Conta_init :: "int \<Rightarrow> nat \<Rightarrow> conta" where
  "Conta_init n cl =
     \<lparr>saldo = 0, numero = n, agencia = ''0001'', cliente = cl, historico = Historico_init\<rparr>"

definition ContaCorrente_init :: "int \<Rightarrow> nat \<Rightarrow> real \<Rightarrow> int \<Rightarrow> conta_corrente" where
  "ContaCorrente_init n cl lmt lmt_saques =
     \<lparr>saldo = 0, numero = n, agencia = ''0001'', cliente = cl, historico = Historico_init,
      limite = lmt, limite_saques = lmt_saques\<rparr>"

text \<open>
  \<^verbatim>\<open>nova_conta\<close> is a class method that calls \<^verbatim>\<open>cls(numero, cliente)\<close>: on
  \<^verbatim>\<open>ContaCorrente\<close> the two optional arguments take their defaults, 500 and 3.
\<close>

definition Conta_nova_conta :: "nat \<Rightarrow> int \<Rightarrow> objeto_conta" where
  "Conta_nova_conta cl n = InstConta (Conta_init n cl)"

definition ContaCorrente_nova_conta :: "nat \<Rightarrow> int \<Rightarrow> objeto_conta" where
  "ContaCorrente_nova_conta cl n = InstContaCorrente (ContaCorrente_init n cl 500 3)"

text \<open>Each method returns its boolean, the message it prints and the account afterwards.\<close>

definition Conta_sacar :: "conta \<Rightarrow> real \<Rightarrow> bool \<times> mensagem \<times> conta" where
  "Conta_sacar c v =
     (if v \<le> 0 then (False, ValorInvalido, c)
      else if v > saldo c then (False, SaldoInsuficiente, c)
      else (True, SaqueRealizado, c\<lparr>saldo := saldo c - v\<rparr>))"

definition Conta_depositar ::
  "'a conta_scheme \<Rightarrow> real \<Rightarrow> bool \<times> mensagem \<times> 'a conta_scheme" where
  "Conta_depositar c v =
     (if v \<le> 0 then (False, ValorInvalido, c)
      else (True, DepositoRealizado, c\<lparr>saldo := saldo c + v\<rparr>))"

definition numero_saques :: "item list \<Rightarrow> int" where
  "numero_saques transacoes = int (length (filter isinstance_Saque transacoes))"

definition ContaCorrente_sacar ::
  "conta_corrente \<Rightarrow> real \<Rightarrow> bool \<times> mensagem \<times> conta_corrente" where
  "ContaCorrente_sacar c v =
     (if v \<le> 0 then (False, ValorInvalido, c)
      else if v > limite c then (False, SaqueExcedeLimite, c)
      else if numero_saques (historico c) \<ge> limite_saques c then (False, MaximoSaquesExcedido, c)
      else if v > saldo c + limite c then (False, SaqueExcedeDisponivel, c)
      else (True, SaqueRealizado, c\<lparr>saldo := saldo c - v\<rparr>))"

text \<open>\<^verbatim>\<open>conta.sacar(valor)\<close>, dispatched on the class of the object.\<close>

fun sacar_conta :: "objeto_conta \<Rightarrow> real \<Rightarrow> bool \<times> mensagem \<times> objeto_conta" where
  "sacar_conta (InstConta c) v =
     (case Conta_sacar c v of (ok, m, c') \<Rightarrow> (ok, m, InstConta c'))"
| "sacar_conta (InstContaCorrente c) v =
     (case ContaCorrente_sacar c v of (ok, m, c') \<Rightarrow> (ok, m, InstContaCorrente c'))"

text \<open>\<^verbatim>\<open>conta.depositar(valor)\<close>: inherited, the same code for both classes.\<close>

fun depositar_conta :: "objeto_conta \<Rightarrow> real \<Rightarrow> bool \<times> mensagem \<times> objeto_conta" where
  "depositar_conta (InstConta c) v =
     (case Conta_depositar c v of (ok, m, c') \<Rightarrow> (ok, m, InstConta c'))"
| "depositar_conta (InstContaCorrente c) v =
     (case Conta_depositar c v of (ok, m, c') \<Rightarrow> (ok, m, InstContaCorrente c'))"

text \<open>
  The properties \<^verbatim>\<open>saldo\<close>, \<^verbatim>\<open>numero\<close>, \<^verbatim>\<open>cliente\<close> and \<^verbatim>\<open>historico.transacoes\<close> of an
  object.
\<close>

fun saldo_de :: "objeto_conta \<Rightarrow> real" where
  "saldo_de (InstConta c) = saldo c"
| "saldo_de (InstContaCorrente c) = saldo c"

fun numero_de :: "objeto_conta \<Rightarrow> int" where
  "numero_de (InstConta c) = numero c"
| "numero_de (InstContaCorrente c) = numero c"

fun cliente_de :: "objeto_conta \<Rightarrow> nat" where
  "cliente_de (InstConta c) = cliente c"
| "cliente_de (InstContaCorrente c) = cliente c"

fun transacoes_de :: "objeto_conta \<Rightarrow> item list" where
  "transacoes_de (InstConta c) = historico c"
| "transacoes_de (InstContaCorrente c) = historico c"

text \<open>\<^verbatim>\<open>conta.historico.adicionar_transacao(t)\<close>: the history of the object grows in place.\<close>

fun registrar_no_historico :: "objeto_conta \<Rightarrow> transacao \<Rightarrow> string \<Rightarrow> objeto_conta" where
  "registrar_no_historico (InstConta c) t agora =
     InstConta (c\<lparr>historico := adicionar_transacao (historico c) t agora\<rparr>)"
| "registrar_no_historico (InstContaCorrente c) t agora =
     InstContaCorrente (c\<lparr>historico := adicionar_transacao (historico c) t agora\<rparr>)"

text \<open>
  \<^verbatim>\<open>Saque.registrar\<close> and \<^verbatim>\<open>Deposito.registrar\<close>. The withdrawal calls \<^verbatim>\<open>conta.sacar\<close>
  and records itself when that returns true; the deposit only records itself.
\<close>

fun registrar :: "transacao \<Rightarrow> objeto_conta \<Rightarrow> string \<Rightarrow> objeto_conta" where
  "registrar (Saque v) conta agora =
     (case sacar_conta conta v of
        (sucesso_transacao, m, conta') \<Rightarrow>
          if sucesso_transacao then registrar_no_historico conta' (Saque v) agora else conta')"
| "registrar (Deposito v) conta agora = registrar_no_historico conta (Deposito v) agora"

text \<open>\<^verbatim>\<open>Cliente.realizar_transacao\<close> forwards to the transaction.\<close>

definition realizar_transacao :: "objeto_conta \<Rightarrow> transacao \<Rightarrow> string \<Rightarrow> objeto_conta" where
  "realizar_transacao conta t agora = registrar t conta agora"

text \<open>
  A finite sequence of transactions applied to one account, each with the clock reading
  of its moment.
\<close>

fun realizar_transacoes :: "objeto_conta \<Rightarrow> (transacao \<times> string) list \<Rightarrow> objeto_conta" where
  "realizar_transacoes conta [] = conta"
| "realizar_transacoes conta ((t, agora) # ts) =
     realizar_transacoes (realizar_transacao conta t agora) ts"

subsection \<open>Clients and the menu\<close>

text \<open>
  \<^verbatim>\<open>PessoaFisica\<close>, with the attributes of \<^verbatim>\<open>Cliente\<close>. The attribute \<^verbatim>\<open>contas\<close> of a
  client holds references to account objects that are also in the list \<^verbatim>\<open>contas\<close> of
  \<^verbatim>\<open>main\<close>; every account is appended to that list when it is created and nothing is
  ever removed, so a reference is the position of the object there.
\<close>

record pessoa_fisica =
  endereco :: string
  contas_do_cliente :: "nat list"
  nome :: string
  data_nascimento :: string
  cpf :: string

definition PessoaFisica_init :: "string \<Rightarrow> string \<Rightarrow> string \<Rightarrow> string \<Rightarrow> pessoa_fisica" where
  "PessoaFisica_init n d c e =
     \<lparr>endereco = e, contas_do_cliente = [], nome = n, data_nascimento = d, cpf = c\<rparr>"

definition adicionar_conta :: "pessoa_fisica \<Rightarrow> nat \<Rightarrow> pessoa_fisica" where
  "adicionar_conta cl a = cl\<lparr>contas_do_cliente := contas_do_cliente cl @ [a]\<rparr>"

text \<open>The two lists of \<^verbatim>\<open>main\<close>.\<close>

record estado =
  clientes :: "pessoa_fisica list"
  contas :: "objeto_conta list"

text \<open>
  \<^verbatim>\<open>filtrar_cliente\<close> returns the first client with the given CPF, here as a reference
  (its position), or \<^verbatim>\<open>None\<close>.
\<close>

definition filtrar_cliente :: "string \<Rightarrow> pessoa_fisica list \<Rightarrow> nat option" where
  "filtrar_cliente c cls =
     (case filter (\<lambda>i. cpf (cls ! i) = c) [0..<length cls] of
        [] \<Rightarrow> None
      | i # clientes_filtrados \<Rightarrow> Some i)"

definition recuperar_conta_cliente :: "pessoa_fisica \<Rightarrow> nat option" where
  "recuperar_conta_cliente cl =
     (case contas_do_cliente cl of [] \<Rightarrow> None | a # outras \<Rightarrow> Some a)"

text \<open>
  \<^verbatim>\<open>cliente.realizar_transacao(conta, transacao)\<close> on the object that the reference
  \<open>a\<close> points to. A reference always points into the list; the other branch is not
  reachable from the program and leaves the state as it is.
\<close>

definition transacao_na_conta :: "estado \<Rightarrow> nat \<Rightarrow> transacao \<Rightarrow> string \<Rightarrow> estado" where
  "transacao_na_conta st a t agora =
     (if a < length (contas st)
      then st\<lparr>contas := (contas st)[a := realizar_transacao (contas st ! a) t agora]\<rparr>
      else st)"

text \<open>
  The menu functions. What the user types at each \<^verbatim>\<open>input\<close> is an argument, and so is
  the clock reading of the moment a transaction is recorded.
\<close>

definition depositar :: "estado \<Rightarrow> string \<Rightarrow> real \<Rightarrow> string \<Rightarrow> estado" where
  "depositar st c v agora =
     (case filtrar_cliente c (clientes st) of
        None \<Rightarrow> st
      | Some i \<Rightarrow>
          (case recuperar_conta_cliente (clientes st ! i) of
             None \<Rightarrow> st
           | Some a \<Rightarrow> transacao_na_conta st a (Deposito v) agora))"

definition sacar :: "estado \<Rightarrow> string \<Rightarrow> real \<Rightarrow> string \<Rightarrow> estado" where
  "sacar st c v agora =
     (case filtrar_cliente c (clientes st) of
        None \<Rightarrow> st
      | Some i \<Rightarrow>
          (case recuperar_conta_cliente (clientes st ! i) of
             None \<Rightarrow> st
           | Some a \<Rightarrow> transacao_na_conta st a (Saque v) agora))"

definition criar_cliente :: "estado \<Rightarrow> string \<Rightarrow> string \<Rightarrow> string \<Rightarrow> string \<Rightarrow> estado" where
  "criar_cliente st c n d e =
     (case filtrar_cliente c (clientes st) of
        Some i \<Rightarrow> st
      | None \<Rightarrow> st\<lparr>clientes := clientes st @ [PessoaFisica_init n d c e]\<rparr>)"

definition criar_conta :: "int \<Rightarrow> string \<Rightarrow> estado \<Rightarrow> estado" where
  "criar_conta numero_conta c st =
     (case filtrar_cliente c (clientes st) of
        None \<Rightarrow> st
      | Some i \<Rightarrow>
          st\<lparr>contas := contas st @ [ContaCorrente_nova_conta i numero_conta],
             clientes := (clientes st)[i := adicionar_conta (clientes st ! i) (length (contas st))]\<rparr>)"

text \<open>
  One choice at the menu with the answers to the prompts that follow it. The statement
  (\<^verbatim>\<open>e\<close>) and the listing (\<^verbatim>\<open>lc\<close>) only print.
\<close>

datatype comando =
    Op_d string real string
  | Op_s string real string
  | Op_e string
  | Op_nu string string string string
  | Op_nc string
  | Op_lc
  | Op_x
  | Op_invalida string

fun passo :: "estado \<Rightarrow> comando \<Rightarrow> estado" where
  "passo st (Op_d c v agora) = depositar st c v agora"
| "passo st (Op_s c v agora) = sacar st c v agora"
| "passo st (Op_e c) = st"
| "passo st (Op_nu c n d e) = criar_cliente st c n d e"
| "passo st (Op_nc c) = criar_conta (int (length (contas st)) + 1) c st"
| "passo st Op_lc = st"
| "passo st Op_x = st"
| "passo st (Op_invalida opcao) = st"

text \<open>
  The loop of \<^verbatim>\<open>main\<close> over the choices typed: it ends at \<^verbatim>\<open>x\<close>, or when the input
  does.
\<close>

fun laco :: "estado \<Rightarrow> comando list \<Rightarrow> estado" where
  "laco st [] = st"
| "laco st (opcao # resto) = (if opcao = Op_x then st else laco (passo st opcao) resto)"

definition main :: "comando list \<Rightarrow> estado" where
  "main entradas = laco \<lparr>clientes = [], contas = []\<rparr> entradas"

subsection \<open>Python floats\<close>

text \<open>
  A Python float is an IEEE 754 binary64 value: NaN, an infinity, or a finite value, here
  the integer \<open>m\<close> times 2 to the \<open>e\<close>. A finite value is a float when it can be written
  with \<open>\<bar>m\<bar> < 2 ^ 53\<close> and \<open>- 1074 \<le> e \<le> 971\<close>. The two zeros compare equal and are one
  value here. The Python ints of the source that meet a float (the balance 0 of a new
  account, the default limit 500) are floats exactly, and Python compares an int with a
  float by value.
\<close>

datatype pyfloat = Finito int int | MaisInfinito | MenosInfinito | NaN

text \<open>The pair \<open>m\<close>, \<open>e\<close> of a finite value is such a writing.\<close>

fun representavel :: "pyfloat \<Rightarrow> bool" where
  "representavel (Finito m e) = (\<bar>m\<bar> < 2 ^ 53 \<and> - 1074 \<le> e \<and> e \<le> 971)"
| "representavel MaisInfinito = True"
| "representavel MenosInfinito = True"
| "representavel NaN = True"

text \<open>The number of binary digits of a natural number.\<close>

fun bits :: "nat \<Rightarrow> nat" where
  "bits n = (if n = 0 then 0 else Suc (bits (n div 2)))"

declare bits.simps [simp del]

definition infinito_de :: "int \<Rightarrow> pyfloat" where
  "infinito_de m = (if m < 0 then MenosInfinito else MaisInfinito)"

text \<open>
  The float nearest to the exact value \<open>m\<close> times 2 to the \<open>e\<close>, ties to the even
  significand: \<open>t\<close> is the exponent of the last place kept (53 binary digits, or the
  least exponent - 1074 for a subnormal), \<open>q\<close> the digits kept and \<open>r\<close> the digits
  dropped. A result of magnitude 2 to the 1024 or more is an infinity.
\<close>

definition arredonda :: "int \<Rightarrow> int \<Rightarrow> pyfloat" where
  "arredonda m e =
     (let n = int (bits (nat \<bar>m\<bar>));
          t = max (n + e - 53) (- 1074);
          s = nat (t - e);
          q = \<bar>m\<bar> div 2 ^ s;
          r = \<bar>m\<bar> mod 2 ^ s;
          q' = (if 2 ^ s < 2 * r \<or> (2 * r = 2 ^ s \<and> q mod 2 = 1) then q + 1 else q)
      in if t \<le> e then (if 1024 < n + e then infinito_de m else Finito m e)
         else if 1024 < int (bits (nat q')) + t then infinito_de m
         else Finito (sgn m * q') t)"

fun f_neg :: "pyfloat \<Rightarrow> pyfloat" where
  "f_neg (Finito m e) = Finito (- m) e"
| "f_neg MaisInfinito = MenosInfinito"
| "f_neg MenosInfinito = MaisInfinito"
| "f_neg NaN = NaN"

text \<open>\<^verbatim>\<open>a + b\<close> and \<^verbatim>\<open>a - b\<close>: the exact sum of two finite values, rounded once.\<close>

fun f_add :: "pyfloat \<Rightarrow> pyfloat \<Rightarrow> pyfloat" where
  "f_add NaN b = NaN"
| "f_add a NaN = NaN"
| "f_add MaisInfinito MenosInfinito = NaN"
| "f_add MenosInfinito MaisInfinito = NaN"
| "f_add MaisInfinito b = MaisInfinito"
| "f_add MenosInfinito b = MenosInfinito"
| "f_add a MaisInfinito = MaisInfinito"
| "f_add a MenosInfinito = MenosInfinito"
| "f_add (Finito m1 e1) (Finito m2 e2) =
     arredonda (m1 * 2 ^ nat (e1 - min e1 e2) + m2 * 2 ^ nat (e2 - min e1 e2)) (min e1 e2)"

definition f_sub :: "pyfloat \<Rightarrow> pyfloat \<Rightarrow> pyfloat" where
  "f_sub a b = f_add a (f_neg b)"

text \<open>\<^verbatim>\<open>a <= b\<close> and \<^verbatim>\<open>a < b\<close>: false whenever an operand is NaN.\<close>

fun f_le :: "pyfloat \<Rightarrow> pyfloat \<Rightarrow> bool" where
  "f_le NaN b = False"
| "f_le a NaN = False"
| "f_le MenosInfinito b = True"
| "f_le a MaisInfinito = True"
| "f_le MaisInfinito b = False"
| "f_le a MenosInfinito = False"
| "f_le (Finito m1 e1) (Finito m2 e2) =
     (m1 * 2 ^ nat (e1 - min e1 e2) \<le> m2 * 2 ^ nat (e2 - min e1 e2))"

fun f_lt :: "pyfloat \<Rightarrow> pyfloat \<Rightarrow> bool" where
  "f_lt NaN b = False"
| "f_lt a NaN = False"
| "f_lt MaisInfinito b = False"
| "f_lt a MenosInfinito = False"
| "f_lt MenosInfinito b = True"
| "f_lt a MaisInfinito = True"
| "f_lt (Finito m1 e1) (Finito m2 e2) =
     (m1 * 2 ^ nat (e1 - min e1 e2) < m2 * 2 ^ nat (e2 - min e1 e2))"

text \<open>\<^verbatim>\<open>a > b\<close>.\<close>

definition f_gt :: "pyfloat \<Rightarrow> pyfloat \<Rightarrow> bool" where
  "f_gt a b = f_lt b a"

subsection \<open>A checking account over Python floats\<close>

text \<open>
  The transactions, the history and \<^verbatim>\<open>ContaCorrente\<close> once more, with the amounts, the
  balance and the limit as Python floats and every operation of the source in its place.
\<close>

datatype transacao_f64 = Saque_f64 pyfloat | Deposito_f64 pyfloat

fun transacao_valor_f64 :: "transacao_f64 \<Rightarrow> pyfloat" where
  "transacao_valor_f64 (Saque_f64 v) = v"
| "transacao_valor_f64 (Deposito_f64 v) = v"

fun nome_da_classe_f64 :: "transacao_f64 \<Rightarrow> string" where
  "nome_da_classe_f64 (Saque_f64 v) = ''Saque''"
| "nome_da_classe_f64 (Deposito_f64 v) = ''Deposito''"

record entrada_f64 =
  tipo_f64 :: string
  valor_f64 :: pyfloat
  data_f64 :: string

datatype item_f64 = Dicionario_f64 entrada_f64 | Objeto_f64 transacao_f64

fun isinstance_Saque_f64 :: "item_f64 \<Rightarrow> bool" where
  "isinstance_Saque_f64 (Objeto_f64 (Saque_f64 v)) = True"
| "isinstance_Saque_f64 (Objeto_f64 (Deposito_f64 v)) = False"
| "isinstance_Saque_f64 (Dicionario_f64 e) = False"

definition adicionar_transacao_f64 ::
  "item_f64 list \<Rightarrow> transacao_f64 \<Rightarrow> string \<Rightarrow> item_f64 list" where
  "adicionar_transacao_f64 transacoes t agora =
     transacoes @ [Dicionario_f64 \<lparr>tipo_f64 = nome_da_classe_f64 t,
                                   valor_f64 = transacao_valor_f64 t, data_f64 = agora\<rparr>]"

record conta_corrente_f64 =
  saldo_f64 :: pyfloat
  numero_f64 :: int
  agencia_f64 :: string
  cliente_f64 :: nat
  historico_f64 :: "item_f64 list"
  limite_f64 :: pyfloat
  limite_saques_f64 :: int

definition ContaCorrente_init_f64 :: "int \<Rightarrow> nat \<Rightarrow> pyfloat \<Rightarrow> int \<Rightarrow> conta_corrente_f64" where
  "ContaCorrente_init_f64 n cl lmt lmt_saques =
     \<lparr>saldo_f64 = Finito 0 0, numero_f64 = n, agencia_f64 = ''0001'', cliente_f64 = cl,
      historico_f64 = [], limite_f64 = lmt, limite_saques_f64 = lmt_saques\<rparr>"

definition numero_saques_f64 :: "item_f64 list \<Rightarrow> int" where
  "numero_saques_f64 transacoes = int (length (filter isinstance_Saque_f64 transacoes))"

definition ContaCorrente_sacar_f64 ::
  "conta_corrente_f64 \<Rightarrow> pyfloat \<Rightarrow> bool \<times> mensagem \<times> conta_corrente_f64" where
  "ContaCorrente_sacar_f64 c v =
     (if f_le v (Finito 0 0) then (False, ValorInvalido, c)
      else if f_gt v (limite_f64 c) then (False, SaqueExcedeLimite, c)
      else if numero_saques_f64 (historico_f64 c) \<ge> limite_saques_f64 c
        then (False, MaximoSaquesExcedido, c)
      else if f_gt v (f_add (saldo_f64 c) (limite_f64 c)) then (False, SaqueExcedeDisponivel, c)
      else (True, SaqueRealizado, c\<lparr>saldo_f64 := f_sub (saldo_f64 c) v\<rparr>))"

fun registrar_f64 :: "transacao_f64 \<Rightarrow> conta_corrente_f64 \<Rightarrow> string \<Rightarrow> conta_corrente_f64" where
  "registrar_f64 (Saque_f64 v) conta agora =
     (case ContaCorrente_sacar_f64 conta v of
        (sucesso_transacao, m, conta') \<Rightarrow>
          if sucesso_transacao
          then conta'\<lparr>historico_f64 :=
                 adicionar_transacao_f64 (historico_f64 conta') (Saque_f64 v) agora\<rparr>
          else conta')"
| "registrar_f64 (Deposito_f64 v) conta agora =
     conta\<lparr>historico_f64 := adicionar_transacao_f64 (historico_f64 conta) (Deposito_f64 v) agora\<rparr>"

text \<open>The value of \<^verbatim>\<open>"tipo"\<close> of a history element, empty for an object that is no dictionary.\<close>

fun tipo_f64_de :: "item_f64 \<Rightarrow> string" where
  "tipo_f64_de (Dicionario_f64 e) = tipo_f64 e"
| "tipo_f64_de (Objeto_f64 t) = []"

subsection \<open>Notions of the specification\<close>

text \<open>The amounts of the history entries of one kind, added up.\<close>

fun soma_do_tipo :: "string \<Rightarrow> item list \<Rightarrow> real" where
  "soma_do_tipo k [] = 0"
| "soma_do_tipo k (Dicionario e # xs) = (if tipo e = k then valor e else 0) + soma_do_tipo k xs"
| "soma_do_tipo k (Objeto t # xs) = soma_do_tipo k xs"

text \<open>The number of history entries of one kind.\<close>

fun entradas_do_tipo :: "string \<Rightarrow> item list \<Rightarrow> nat" where
  "entradas_do_tipo k [] = 0"
| "entradas_do_tipo k (Dicionario e # xs) = (if tipo e = k then 1 else 0) + entradas_do_tipo k xs"
| "entradas_do_tipo k (Objeto t # xs) = entradas_do_tipo k xs"

text \<open>A checking account with the default limits of the constructor.\<close>

fun conta_corrente_padrao :: "objeto_conta \<Rightarrow> bool" where
  "conta_corrente_padrao (InstConta c) = False"
| "conta_corrente_padrao (InstContaCorrente c) = (limite c = 500 \<and> limite_saques c = 3)"

text \<open>The accounts of \<^verbatim>\<open>main\<close> carry the numbers 1, 2, 3, ... in the order of the list.\<close>

definition numeros_em_ordem :: "estado \<Rightarrow> bool" where
  "numeros_em_ordem st = (map numero_de (contas st) = [1..int (length (contas st))])"

section \<open>Properties\<close>

subsection \<open>One transaction on one account\<close>

lemmas conta_defs = Conta_init_def ContaCorrente_init_def Historico_init_def
  Conta_nova_conta_def ContaCorrente_nova_conta_def Conta_sacar_def Conta_depositar_def
  ContaCorrente_sacar_def numero_saques_def adicionar_transacao_def realizar_transacao_def

lemma registrar_numero: "numero_de (registrar t c agora) = numero_de c"
  by (cases t; cases c) (simp_all add: Conta_sacar_def ContaCorrente_sacar_def)

lemma registrar_padrao: "conta_corrente_padrao (registrar t c agora) = conta_corrente_padrao c"
  by (cases t; cases c) (simp_all add: Conta_sacar_def ContaCorrente_sacar_def)

text \<open>
  C10. A new account has balance 0 and an empty history: both constructors set
  \<^verbatim>\<open>_saldo = 0\<close> and a fresh \<^verbatim>\<open>Historico\<close>, whose list is empty, and an account that
  \<^verbatim>\<open>criar_conta\<close> appends to the list of accounts is in that condition.
\<close>

theorem conta_nova_saldo_zero_historico_vazio:
  "saldo (Conta_init n cl) = 0 \<and> historico (Conta_init n cl) = []
   \<and> saldo (ContaCorrente_init n cl lmt lmt_saques) = 0
   \<and> historico (ContaCorrente_init n cl lmt lmt_saques) = []
   \<and> (contas (criar_conta n c st) = contas st
      \<or> (\<exists>a. contas (criar_conta n c st) = contas st @ [a]
            \<and> saldo_de a = 0 \<and> transacoes_de a = []))"
  by (simp add: conta_defs criar_conta_def split: option.splits)

text \<open>
  C1. A deposit of a positive amount should add the amount to the balance.
  \<^verbatim>\<open>Deposito.registrar\<close> records the deposit in the history and never calls
  \<^verbatim>\<open>conta.depositar\<close>: on a new checking account a deposit of 100 leaves one history
  entry and the balance at 0, where \<^verbatim>\<open>conta.depositar(100)\<close> itself returns true with
  the balance at 100.
\<close>

theorem deposito_registrado_sem_alterar_saldo:
  "saldo_de (registrar (Deposito 100) (ContaCorrente_nova_conta 0 1) ''03-11-2026 10:00:00'') = 0
   \<and> transacoes_de (registrar (Deposito 100) (ContaCorrente_nova_conta 0 1) ''03-11-2026 10:00:00'')
       = [Dicionario \<lparr>tipo = ''Deposito'', valor = 100, data = ''03-11-2026 10:00:00''\<rparr>]
   \<and> depositar_conta (ContaCorrente_nova_conta 0 1) 100
       = (True, DepositoRealizado,
          InstContaCorrente ((ContaCorrente_init 1 0 500 3)\<lparr>saldo := 100\<rparr>))"
  by (simp add: conta_defs)

text \<open>
  C4. A deposit of an amount that is not positive should leave the history as it is.
  \<^verbatim>\<open>Deposito.registrar\<close> appends an entry for any amount: a deposit of -50 on a new
  checking account is recorded (the balance stays 0), where \<^verbatim>\<open>conta.depositar(-50)\<close>
  returns false and changes nothing.
\<close>

theorem deposito_nao_positivo_entra_no_historico:
  "transacoes_de (registrar (Deposito (- 50)) (ContaCorrente_nova_conta 0 1) ''03-11-2026 10:00:00'')
     = [Dicionario \<lparr>tipo = ''Deposito'', valor = - 50, data = ''03-11-2026 10:00:00''\<rparr>]
   \<and> saldo_de (registrar (Deposito (- 50)) (ContaCorrente_nova_conta 0 1) ''03-11-2026 10:00:00'') = 0
   \<and> depositar_conta (ContaCorrente_nova_conta 0 1) (- 50)
       = (False, ValorInvalido, ContaCorrente_nova_conta 0 1)"
  by (simp add: conta_defs)

text \<open>
  C6. On a checking account a withdrawal above the overdraft limit is refused whatever
  the balance, the history and the cap are, and the account is left as it was. For a
  positive amount the message is the one of the limit check, so this check comes before
  the count of withdrawals and the available funds; an amount that is not positive has
  already been refused as invalid.
\<close>

theorem saque_acima_do_limite_rejeitado:
  "limite c < v \<Longrightarrow>
   ContaCorrente_sacar c v = (False, (if v \<le> 0 then ValorInvalido else SaqueExcedeLimite), c)"
  by (simp add: ContaCorrente_sacar_def)

theorem saque_acima_do_limite_rejeitado_witness:
  "limite ((ContaCorrente_init 1 0 500 3)\<lparr>saldo := 10000\<rparr>) < 600
   \<and> ContaCorrente_sacar ((ContaCorrente_init 1 0 500 3)\<lparr>saldo := 10000\<rparr>) 600
       = (False, SaqueExcedeLimite, (ContaCorrente_init 1 0 500 3)\<lparr>saldo := 10000\<rparr>)
   \<and> limite_saques (ContaCorrente_init 1 0 500 0) \<le> numero_saques (historico (ContaCorrente_init 1 0 500 0))
   \<and> saldo (ContaCorrente_init 1 0 500 0) + limite (ContaCorrente_init 1 0 500 0) < 600
   \<and> ContaCorrente_sacar (ContaCorrente_init 1 0 500 0) 600
       = (False, SaqueExcedeLimite, ContaCorrente_init 1 0 500 0)"
proof -
  let ?c = "(ContaCorrente_init 1 0 500 3)\<lparr>saldo := 10000\<rparr>"
  let ?d = "ContaCorrente_init 1 0 500 0"
  have h: "limite ?c < 600" by (simp add: ContaCorrente_init_def)
  have k: "limite ?d < 600" by (simp add: ContaCorrente_init_def)
  have g: "limite_saques ?d \<le> numero_saques (historico ?d)" "saldo ?d + limite ?d < 600"
    by (simp_all add: ContaCorrente_init_def Historico_init_def numero_saques_def)
  show ?thesis
    using h g saque_acima_do_limite_rejeitado [OF h] saque_acima_do_limite_rejeitado [OF k]
    by simp
qed

text \<open>
  C7. A withdrawal transaction that the account refuses leaves the whole account, balance
  and history, as it was; one that the account accepts takes the amount from the balance
  and appends one entry to the history. The history changes exactly when the account
  accepts.
\<close>

theorem saque_rejeitado_ou_registrado:
  "(\<not> fst (sacar_conta c v) \<longrightarrow> registrar (Saque v) c agora = c)
   \<and> (fst (sacar_conta c v) \<longrightarrow>
        transacoes_de (registrar (Saque v) c agora)
          = transacoes_de c @ [Dicionario \<lparr>tipo = ''Saque'', valor = v, data = agora\<rparr>]
        \<and> saldo_de (registrar (Saque v) c agora) = saldo_de c - v)
   \<and> (fst (sacar_conta c v) = (transacoes_de (registrar (Saque v) c agora) \<noteq> transacoes_de c))"
  by (cases c) (simp_all add: Conta_sacar_def ContaCorrente_sacar_def adicionar_transacao_def)

theorem saque_rejeitado_ou_registrado_witness:
  "\<not> fst (sacar_conta (ContaCorrente_nova_conta 0 1) 600)
   \<and> registrar (Saque 600) (ContaCorrente_nova_conta 0 1) ''03-11-2026 10:00:00''
       = ContaCorrente_nova_conta 0 1
   \<and> fst (sacar_conta (ContaCorrente_nova_conta 0 1) 200)
   \<and> transacoes_de (registrar (Saque 200) (ContaCorrente_nova_conta 0 1) ''03-11-2026 10:00:00'')
       = [Dicionario \<lparr>tipo = ''Saque'', valor = 200, data = ''03-11-2026 10:00:00''\<rparr>]
   \<and> saldo_de (registrar (Saque 200) (ContaCorrente_nova_conta 0 1) ''03-11-2026 10:00:00'') = - 200"
proof -
  have r: "\<not> fst (sacar_conta (ContaCorrente_nova_conta 0 1) 600)"
    by (simp add: conta_defs)
  have a: "fst (sacar_conta (ContaCorrente_nova_conta 0 1) 200)"
    by (simp add: conta_defs)
  have t: "transacoes_de (ContaCorrente_nova_conta 0 1) = []"
       "saldo_de (ContaCorrente_nova_conta 0 1) = 0"
    by (simp_all add: conta_defs)
  show ?thesis
    using r a t
      saque_rejeitado_ou_registrado [of "ContaCorrente_nova_conta 0 1" 600 "''03-11-2026 10:00:00''"]
      saque_rejeitado_ou_registrado [of "ContaCorrente_nova_conta 0 1" 200 "''03-11-2026 10:00:00''"]
    by simp
qed

text \<open>
  C2. A checking account whose history holds three withdrawals should refuse a fourth.
  The cap counts the elements of the history that are \<^verbatim>\<open>Saque\<close> objects, and the
  history holds dictionaries, so the count is always 0: after three recorded withdrawals
  of 100 on a new checking account (cap 3, limit 500) a fourth withdrawal of 100 is
  accepted and the balance goes from -300 to -400.
\<close>

theorem quarto_saque_aceito:
  "entradas_do_tipo ''Saque''
     (transacoes_de (realizar_transacoes (ContaCorrente_nova_conta 0 1)
        [(Saque 100, ''t1''), (Saque 100, ''t2''), (Saque 100, ''t3'')])) = 3
   \<and> numero_saques
     (transacoes_de (realizar_transacoes (ContaCorrente_nova_conta 0 1)
        [(Saque 100, ''t1''), (Saque 100, ''t2''), (Saque 100, ''t3'')])) = 0
   \<and> saldo_de (realizar_transacoes (ContaCorrente_nova_conta 0 1)
        [(Saque 100, ''t1''), (Saque 100, ''t2''), (Saque 100, ''t3'')]) = - 300
   \<and> fst (sacar_conta (realizar_transacoes (ContaCorrente_nova_conta 0 1)
        [(Saque 100, ''t1''), (Saque 100, ''t2''), (Saque 100, ''t3'')]) 100)
   \<and> saldo_de (snd (snd (sacar_conta (realizar_transacoes (ContaCorrente_nova_conta 0 1)
        [(Saque 100, ''t1''), (Saque 100, ''t2''), (Saque 100, ''t3'')]) 100))) = - 400"
  by (simp add: conta_defs)

text \<open>
  C3. The balance should be the recorded deposits minus the recorded withdrawals. A
  recorded deposit never reaches the balance: after a deposit of 100 and a withdrawal of
  30 on a new checking account both are in the history, their difference is 70, and the
  balance is -30.
\<close>

theorem saldo_ignora_depositos_registrados:
  "transacoes_de (realizar_transacoes (ContaCorrente_nova_conta 0 1)
        [(Deposito 100, ''t1''), (Saque 30, ''t2'')])
     = [Dicionario \<lparr>tipo = ''Deposito'', valor = 100, data = ''t1''\<rparr>,
        Dicionario \<lparr>tipo = ''Saque'', valor = 30, data = ''t2''\<rparr>]
   \<and> soma_do_tipo ''Deposito'' (transacoes_de (realizar_transacoes (ContaCorrente_nova_conta 0 1)
        [(Deposito 100, ''t1''), (Saque 30, ''t2'')]))
     - soma_do_tipo ''Saque'' (transacoes_de (realizar_transacoes (ContaCorrente_nova_conta 0 1)
        [(Deposito 100, ''t1''), (Saque 30, ''t2'')])) = 70
   \<and> saldo_de (realizar_transacoes (ContaCorrente_nova_conta 0 1)
        [(Deposito 100, ''t1''), (Saque 30, ''t2'')]) = - 30"
  by (simp add: conta_defs)

subsection \<open>The balance and the overdraft limit\<close>

lemmas f64_defs = f_sub_def f_gt_def arredonda_def infinito_de_def Let_def bits.simps
  ContaCorrente_init_f64_def ContaCorrente_sacar_f64_def numero_saques_f64_def
  adicionar_transacao_f64_def

text \<open>
  C5. The balance of a checking account should never drop below minus its overdraft
  limit. The check of the available funds compares the amount with the rounded sum
  \<^verbatim>\<open>saldo + limite\<close>, and the new balance is the rounded difference. On a new checking
  account with limit 0.3 (the float 5404319552844595 / 2 ^ 54) a withdrawal of 3 / 2 ^ 55
  and then one of 0.29999999999999993 (the float 5404319552844594 / 2 ^ 54) are both
  accepted and recorded, and the balance is -0.30000000000000004 (the float
  - 5404319552844596 / 2 ^ 54), below minus the limit. On a new checking account with the
  default limit 500 a withdrawal of NaN passes every check, and the balance is NaN, which
  is not at or above -500.
\<close>

theorem saldo_abaixo_do_limite_por_arredondamento:
  "representavel (Finito 5404319552844595 (- 54))
   \<and> representavel (Finito 3 (- 55))
   \<and> representavel (Finito 5404319552844594 (- 54))
   \<and> saldo_f64 (registrar_f64 (Saque_f64 (Finito 3 (- 55)))
         (ContaCorrente_init_f64 1 0 (Finito 5404319552844595 (- 54)) 3) ''t1'')
       = Finito (- 3) (- 55)
   \<and> f_add (Finito (- 3) (- 55)) (Finito 5404319552844595 (- 54)) = Finito 5404319552844594 (- 54)
   \<and> saldo_f64 (registrar_f64 (Saque_f64 (Finito 5404319552844594 (- 54)))
         (registrar_f64 (Saque_f64 (Finito 3 (- 55)))
            (ContaCorrente_init_f64 1 0 (Finito 5404319552844595 (- 54)) 3) ''t1'') ''t2'')
       = Finito (- 5404319552844596) (- 54)
   \<and> map tipo_f64_de (historico_f64 (registrar_f64 (Saque_f64 (Finito 5404319552844594 (- 54)))
         (registrar_f64 (Saque_f64 (Finito 3 (- 55)))
            (ContaCorrente_init_f64 1 0 (Finito 5404319552844595 (- 54)) 3) ''t1'') ''t2''))
       = [''Saque'', ''Saque'']
   \<and> f_lt (Finito (- 5404319552844596) (- 54)) (f_neg (Finito 5404319552844595 (- 54)))
   \<and> saldo_f64 (registrar_f64 (Saque_f64 NaN) (ContaCorrente_init_f64 1 0 (Finito 500 0) 3) ''t1'')
       = NaN
   \<and> f_le (f_neg (Finito 500 0)) NaN = False"
  by (simp add: f64_defs)

subsection \<open>The list of accounts under the menu\<close>

lemma map_update_mesmo: "f y = f (xs ! a) \<Longrightarrow> map f (xs[a := y]) = map f xs"
proof (cases "a < length xs")
  case True
  assume "f y = f (xs ! a)"
  with True have "(map f xs)[a := f y] = map f xs"
    by (simp add: list_update_same_conv)
  then show ?thesis by (simp add: map_update)
next
  case False
  then have "xs[a := y] = xs" by (simp add: list_update_beyond)
  then show ?thesis by simp
qed

lemma transacao_na_conta_length:
  "length (contas (transacao_na_conta st a t agora)) = length (contas st)"
  by (simp add: transacao_na_conta_def)

lemma transacao_na_conta_numeros:
  "map numero_de (contas (transacao_na_conta st a t agora)) = map numero_de (contas st)"
  by (simp add: transacao_na_conta_def map_update_mesmo realizar_transacao_def registrar_numero)

lemma transacao_na_conta_padrao:
  assumes "list_all conta_corrente_padrao (contas st)"
  shows "list_all conta_corrente_padrao (contas (transacao_na_conta st a t agora))"
proof -
  have "map conta_corrente_padrao (contas (transacao_na_conta st a t agora))
        = map conta_corrente_padrao (contas st)"
    by (simp add: transacao_na_conta_def map_update_mesmo realizar_transacao_def registrar_padrao)
  then have "list_all (\<lambda>b. b) (map conta_corrente_padrao (contas (transacao_na_conta st a t agora)))"
    using assms by (simp add: list_all_iff)
  then show ?thesis by (simp add: list_all_iff)
qed

lemma criar_conta_contas:
  "contas (criar_conta n c st) =
     (case filtrar_cliente c (clientes st) of
        None \<Rightarrow> contas st
      | Some i \<Rightarrow> contas st @ [InstContaCorrente (ContaCorrente_init n i 500 3)])"
  by (simp add: criar_conta_def ContaCorrente_nova_conta_def split: option.splits)

lemma passo_numeros: "numeros_em_ordem st \<Longrightarrow> numeros_em_ordem (passo st x)"
proof (cases x)
  case (Op_nc c)
  assume "numeros_em_ordem st"
  then show ?thesis
    by (simp add: Op_nc numeros_em_ordem_def criar_conta_contas ContaCorrente_init_def
        upto_rec2 split: option.splits)
qed (simp_all add: numeros_em_ordem_def depositar_def sacar_def criar_cliente_def
      transacao_na_conta_numeros transacao_na_conta_length split: option.splits)

lemma passo_padrao:
  "list_all conta_corrente_padrao (contas st) \<Longrightarrow>
   list_all conta_corrente_padrao (contas (passo st x))"
  by (cases x)
     (simp_all add: depositar_def sacar_def criar_cliente_def criar_conta_contas
       ContaCorrente_init_def transacao_na_conta_padrao split: option.splits)

lemma laco_numeros: "numeros_em_ordem st \<Longrightarrow> numeros_em_ordem (laco st xs)"
  by (induction xs arbitrary: st) (simp_all add: passo_numeros)

lemma laco_padrao:
  "list_all conta_corrente_padrao (contas st) \<Longrightarrow>
   list_all conta_corrente_padrao (contas (laco st xs))"
  by (induction xs arbitrary: st) (simp_all add: passo_padrao)

lemma conta_corrente_padrao_iff:
  "conta_corrente_padrao a = (\<exists>cc. a = InstContaCorrente cc \<and> limite cc = 500 \<and> limite_saques cc = 3)"
  by (cases a) simp_all

lemmas menu_defs = main_def depositar_def sacar_def criar_cliente_def criar_conta_def
  filtrar_cliente_def recuperar_conta_cliente_def transacao_na_conta_def
  PessoaFisica_init_def adicionar_conta_def

text \<open>
  C8. The menu gives a new account the number of accounts that exist plus 1, whoever the
  client is, and creates none when the CPF is unknown; so after any sequence of menu
  choices the accounts carry the numbers 1, 2, 3, ... in the order of their creation.
\<close>

theorem numeros_das_contas_sequenciais:
  "map numero_de (contas (main xs)) = [1..int (length (contas (main xs)))]
   \<and> (filtrar_cliente c (clientes st) = Some i \<longrightarrow>
        (\<exists>a. contas (passo st (Op_nc c)) = contas st @ [a]
             \<and> numero_de a = int (length (contas st)) + 1 \<and> cliente_de a = i))
   \<and> (filtrar_cliente c (clientes st) = None \<longrightarrow> contas (passo st (Op_nc c)) = contas st)"
proof -
  have "numeros_em_ordem \<lparr>clientes = [], contas = []\<rparr>"
    by (simp add: numeros_em_ordem_def)
  then have "numeros_em_ordem (main xs)"
    unfolding main_def by (rule laco_numeros)
  then show ?thesis
    by (simp add: numeros_em_ordem_def criar_conta_contas ContaCorrente_init_def)
qed

theorem numeros_das_contas_sequenciais_witness:
  "map numero_de (contas (main
      [Op_nu ''111'' ''Ana'' ''01-01-1990'' ''Rua A'', Op_nu ''222'' ''Rui'' ''02-02-1980'' ''Rua B'',
       Op_nc ''111'', Op_nc ''333'', Op_nc ''222'', Op_d ''111'' 100 ''t1'', Op_nc ''111''])) = [1, 2, 3]
   \<and> map cliente_de (contas (main
      [Op_nu ''111'' ''Ana'' ''01-01-1990'' ''Rua A'', Op_nu ''222'' ''Rui'' ''02-02-1980'' ''Rua B'',
       Op_nc ''111'', Op_nc ''333'', Op_nc ''222'', Op_d ''111'' 100 ''t1'', Op_nc ''111''])) = [0, 1, 0]
   \<and> filtrar_cliente ''222'' (clientes (main
      [Op_nu ''111'' ''Ana'' ''01-01-1990'' ''Rua A'', Op_nu ''222'' ''Rui'' ''02-02-1980'' ''Rua B'',
       Op_nc ''111''])) = Some 1
   \<and> map numero_de (contas (passo (main
      [Op_nu ''111'' ''Ana'' ''01-01-1990'' ''Rua A'', Op_nu ''222'' ''Rui'' ''02-02-1980'' ''Rua B'',
       Op_nc ''111'']) (Op_nc ''222''))) = [1, 2]"
proof -
  let ?xs = "[Op_nu ''111'' ''Ana'' ''01-01-1990'' ''Rua A'',
              Op_nu ''222'' ''Rui'' ''02-02-1980'' ''Rua B'', Op_nc ''111'']"
  have f: "filtrar_cliente ''222'' (clientes (main ?xs)) = Some 1"
    by (simp add: menu_defs conta_defs upt_rec)
  have n: "map numero_de (contas (main ?xs)) = [1]"
    by (simp add: menu_defs conta_defs upt_rec)
  have l: "map cliente_de (contas (main
      [Op_nu ''111'' ''Ana'' ''01-01-1990'' ''Rua A'', Op_nu ''222'' ''Rui'' ''02-02-1980'' ''Rua B'',
       Op_nc ''111'', Op_nc ''333'', Op_nc ''222'', Op_d ''111'' 100 ''t1'', Op_nc ''111''])) = [0, 1, 0]"
    by (simp add: menu_defs conta_defs upt_rec)
  from n have m: "length (contas (main ?xs)) = 1"
    by (metis length_map length_Cons list.size(3) One_nat_def)
  show ?thesis
    using f n l m
      numeros_das_contas_sequenciais [of
        "[Op_nu ''111'' ''Ana'' ''01-01-1990'' ''Rua A'', Op_nu ''222'' ''Rui'' ''02-02-1980'' ''Rua B'',
          Op_nc ''111'', Op_nc ''333'', Op_nc ''222'', Op_d ''111'' 100 ''t1'', Op_nc ''111'']"
        "''222''" "main ?xs" 1]
    by (simp add: menu_defs conta_defs upt_rec)
qed

text \<open>
  C9. \<^verbatim>\<open>criar_conta\<close> builds a \<^verbatim>\<open>ContaCorrente\<close> with the defaults of its constructor,
  limit 500 and cap 3, or nothing when the CPF is unknown; no other menu choice adds an
  account or changes the class or the limits of one, so after any sequence of menu
  choices every account is a checking account with limit 500 and cap 3.
\<close>

theorem toda_conta_criada_e_corrente_padrao:
  "(\<forall>a \<in> set (contas (main xs)).
      \<exists>cc. a = InstContaCorrente cc \<and> limite cc = 500 \<and> limite_saques cc = 3)
   \<and> (filtrar_cliente c (clientes st) = Some i \<longrightarrow>
        contas (criar_conta n c st) = contas st @ [InstContaCorrente (ContaCorrente_init n i 500 3)]
        \<and> limite (ContaCorrente_init n i 500 3) = 500
        \<and> limite_saques (ContaCorrente_init n i 500 3) = 3)
   \<and> (filtrar_cliente c (clientes st) = None \<longrightarrow> criar_conta n c st = st)"
proof -
  have "list_all conta_corrente_padrao (contas \<lparr>clientes = [], contas = []\<rparr>)"
    by simp
  then have "list_all conta_corrente_padrao (contas (main xs))"
    unfolding main_def by (rule laco_padrao)
  then have "\<forall>a \<in> set (contas (main xs)).
      \<exists>cc. a = InstContaCorrente cc \<and> limite cc = 500 \<and> limite_saques cc = 3"
    by (simp add: list_all_iff conta_corrente_padrao_iff)
  moreover have "filtrar_cliente c (clientes st) = None \<longrightarrow> criar_conta n c st = st"
    by (simp add: criar_conta_def)
  ultimately show ?thesis
    by (simp add: criar_conta_contas ContaCorrente_init_def)
qed

theorem toda_conta_criada_e_corrente_padrao_witness:
  "contas (main
      [Op_nu ''111'' ''Ana'' ''01-01-1990'' ''Rua A'', Op_nc ''111'', Op_s ''111'' 200 ''t1'',
       Op_nc ''111''])
     = [InstContaCorrente
          \<lparr>saldo = - 200, numero = 1, agencia = ''0001'', cliente = 0,
           historico = [Dicionario \<lparr>tipo = ''Saque'', valor = 200, data = ''t1''\<rparr>],
           limite = 500, limite_saques = 3\<rparr>,
        InstContaCorrente (ContaCorrente_init 2 0 500 3)]
   \<and> filtrar_cliente ''111'' (clientes (main [Op_nu ''111'' ''Ana'' ''01-01-1990'' ''Rua A''])) = Some 0
   \<and> contas (criar_conta 1 ''111'' (main [Op_nu ''111'' ''Ana'' ''01-01-1990'' ''Rua A'']))
     = [InstContaCorrente (ContaCorrente_init 1 0 500 3)]"
proof -
  have f: "filtrar_cliente ''111'' (clientes (main [Op_nu ''111'' ''Ana'' ''01-01-1990'' ''Rua A''])) = Some 0"
    by (simp add: menu_defs upt_rec)
  have e: "contas (main [Op_nu ''111'' ''Ana'' ''01-01-1990'' ''Rua A'']) = []"
    by (simp add: menu_defs upt_rec)
  have m: "contas (main
      [Op_nu ''111'' ''Ana'' ''01-01-1990'' ''Rua A'', Op_nc ''111'', Op_s ''111'' 200 ''t1'',
       Op_nc ''111''])
     = [InstContaCorrente
          \<lparr>saldo = - 200, numero = 1, agencia = ''0001'', cliente = 0,
           historico = [Dicionario \<lparr>tipo = ''Saque'', valor = 200, data = ''t1''\<rparr>],
           limite = 500, limite_saques = 3\<rparr>,
        InstContaCorrente (ContaCorrente_init 2 0 500 3)]"
    by (simp add: menu_defs conta_defs upt_rec)
  show ?thesis
    using f e m
      toda_conta_criada_e_corrente_padrao [of
        "[Op_nu ''111'' ''Ana'' ''01-01-1990'' ''Rua A'', Op_nc ''111'', Op_s ''111'' 200 ''t1'',
          Op_nc ''111'']"
        "''111''" "main [Op_nu ''111'' ''Ana'' ''01-01-1990'' ''Rua A'']" 0 1]
    by simp
qed

end
